theory Spec2Isabelle
  imports Complex_Main "HOL-Library.Sublist"
begin

section \<open>Python values, exceptions and library calls\<close>

text \<open>
  The scripts of chapter 2 (\<^verbatim>\<open>1_sources/train.py\<close>, \<^verbatim>\<open>1_sources/inference.py\<close> and the
  notebook cells around them) are sequences of calls into third-party libraries. A Python
  exception is a value: its class name and its message (the message is kept where the
  source or the interpreter fixes it, and is empty otherwise). A computation takes a state
  (the files written so far, or the list of library calls observed so far) and returns its
  outcome (\<open>Inl\<close> an exception that was raised, \<open>Inr\<close> a value) with the new state. No
  script of the repository has a \<^verbatim>\<open>try\<close> statement, so \<open>py_bind\<close> is the only way two
  statements are put in sequence: an exception of the first ends the computation.
\<close>

datatype pyexn = PyExn (exn_class: string) (exn_message: string)

datatype pyval = PyNone | PyInt int | PyFloat real | PyStr string | PyList "pyval list"

type_synonym ('s, 'a) py = "'s \<Rightarrow> (pyexn + 'a) \<times> 's"

definition py_return :: "'a \<Rightarrow> ('s, 'a) py" where
  "py_return x = (\<lambda>st. (Inr x, st))"

definition py_raise :: "pyexn \<Rightarrow> ('s, 'a) py" where
  "py_raise e = (\<lambda>st. (Inl e, st))"

definition py_bind :: "('s, 'a) py \<Rightarrow> ('a \<Rightarrow> ('s, 'b) py) \<Rightarrow> ('s, 'b) py" where
  "py_bind m f = (\<lambda>st. case m st of (Inl e, st') \<Rightarrow> (Inl e, st') | (Inr x, st') \<Rightarrow> f x st')"

text \<open>A library call whose outcome is \<open>r\<close>: \<open>lift\<close> leaves the state alone,
  \<open>lib_call\<close> records the call first (the call has happened whether it returns or raises).\<close>

definition lift :: "pyexn + 'a \<Rightarrow> ('s, 'a) py" where
  "lift r = (\<lambda>st. (r, st))"

definition lib_call :: "'ev \<Rightarrow> pyexn + 'a \<Rightarrow> ('ev list, 'a) py" where
  "lib_call ev r = (\<lambda>calls. (r, calls @ [ev]))"

definition run :: "('ev list, 'a) py \<Rightarrow> (pyexn + 'a) \<times> 'ev list" where
  "run m = m []"

text \<open>A \<^verbatim>\<open>for\<close> loop over a list, with a body that returns nothing.\<close>

fun py_for :: "'a list \<Rightarrow> ('a \<Rightarrow> ('s, unit) py) \<Rightarrow> ('s, unit) py" where
  "py_for [] body = py_return ()"
| "py_for (x # xs) body = py_bind (body x) (\<lambda>_. py_for xs body)"

text \<open>Python's \<^verbatim>\<open>needle in haystack\<close> on strings: \<open>needle\<close> occurs as a contiguous
  piece of \<open>haystack\<close>.\<close>

fun py_in :: "string \<Rightarrow> string \<Rightarrow> bool" where
  "py_in needle [] = (needle = [])"
| "py_in needle (c # cs) = (prefix needle (c # cs) \<or> py_in needle cs)"

text \<open>Indexing a sequence with an index from \<^verbatim>\<open>range\<close> (never negative).\<close>

definition py_index :: "'a list \<Rightarrow> nat \<Rightarrow> pyexn + 'a" where
  "py_index xs i = (if i < length xs then Inr (xs ! i) else Inl (PyExn ''IndexError'' []))"

text \<open>\<^verbatim>\<open>NotImplemented\<close> is a constant of Python, not an exception class: the call
  \<^verbatim>\<open>NotImplemented("...")\<close> raises a \<^verbatim>\<open>TypeError\<close> before any \<^verbatim>\<open>raise\<close> statement
  sees a value. \<^verbatim>\<open>NotImplementedError\<close> is the exception class.\<close>

definition NotImplemented_call :: "string \<Rightarrow> pyexn + pyexn" where
  "NotImplemented_call msg = Inl (PyExn ''TypeError'' '''NotImplementedType' object is not callable'')"

definition NotImplementedError :: "string \<Rightarrow> pyexn" where
  "NotImplementedError msg = PyExn ''NotImplementedError'' msg"

subsection \<open>The \<^verbatim>\<open>os\<close> module\<close>

type_synonym environ = "string \<rightharpoonup> string"

definition environ_getitem :: "environ \<Rightarrow> string \<Rightarrow> pyexn + string" where
  "environ_getitem env key =
     (case env key of None \<Rightarrow> Inl (PyExn ''KeyError'' key) | Some v \<Rightarrow> Inr v)"

definition os_getenv :: "environ \<Rightarrow> string \<Rightarrow> string \<Rightarrow> string" where
  "os_getenv env key dflt = (case env key of None \<Rightarrow> dflt | Some v \<Rightarrow> v)"

text \<open>\<^verbatim>\<open>posixpath.join(a, b)\<close> and \<^verbatim>\<open>posixpath.basename(p)\<close>.\<close>

definition os_path_join :: "string \<Rightarrow> string \<Rightarrow> string" where
  "os_path_join a b =
     (if prefix ''/'' b then b
      else if a = [] \<or> suffix ''/'' a then a @ b
      else a @ ''/'' @ b)"

definition os_path_basename :: "string \<Rightarrow> string" where
  "os_path_basename p = rev (takeWhile (\<lambda>c. c \<noteq> CHR ''/'') (rev p))"

section \<open>The notebook cells that export and upload the dataset\<close>

text \<open>
  \<^verbatim>\<open>fetch_20newsgroups\<close> returns a bunch with the texts under \<^verbatim>\<open>"data"\<close> and the labels
  under \<^verbatim>\<open>"target"\<close>. A CSV file is the list of the records written to it; the working
  directory maps file names to files, and writing to it succeeds.
\<close>

record bunch =
  bunch_data :: "string list"
  bunch_target :: "int list"

datatype csv_line = HeaderLine "string list" | RowLine string int

type_synonym filesystem = "string \<rightharpoonup> csv_line list"

definition open_w :: "string \<Rightarrow> (filesystem, unit) py" where
  "open_w file = (\<lambda>fs. (Inr (), fs(file \<mapsto> [])))"

definition write_line :: "string \<Rightarrow> csv_line \<Rightarrow> (filesystem, unit) py" where
  "write_line file l =
     (\<lambda>fs. (Inr (), fs(file \<mapsto> (case fs file of None \<Rightarrow> [] | Some ls \<Rightarrow> ls) @ [l])))"

text \<open>
  \<^verbatim>\<open>
  for file in ['train_dataset.csv', 'test_dataset.csv']:
      with open(file, 'w') as f:
          w = csv.DictWriter(f, ['data', 'category_id'])
          w.writeheader()
          for i in range(len(train_dataset["data"])):
              w.writerow({"data":train_dataset["data"][i], "category_id":train_dataset["target"][i]})
  \<close>
  The cell runs with the two bunches of the cell before it in scope; its body names
  \<^verbatim>\<open>train_dataset\<close> only.
\<close>

definition export_cell :: "bunch \<Rightarrow> bunch \<Rightarrow> (filesystem, unit) py" where
  "export_cell train_dataset test_dataset =
     py_for [''train_dataset.csv'', ''test_dataset.csv''] (\<lambda>file.
       py_bind (open_w file) (\<lambda>_.
       py_bind (write_line file (HeaderLine [''data'', ''category_id''])) (\<lambda>_.
       py_for [0..<length (bunch_data train_dataset)] (\<lambda>i.
         py_bind (lift (py_index (bunch_data train_dataset) i)) (\<lambda>d.
         py_bind (lift (py_index (bunch_target train_dataset) i)) (\<lambda>t.
         write_line file (RowLine d t)))))))"

section \<open>Library objects and the calls the scripts make\<close>

text \<open>
  Objects of pandas, transformers, torch and sagemaker are opaque values of one type
  \<open>'o\<close>; what the libraries do is a record of functions, each returning a value or
  raising. A data frame is its columns, in order. The calls that reach outside the process
  are recorded as events.
\<close>

type_synonym dataframe = "(string \<times> pyval list) list"

record distilbert_config =
  num_labels :: int

record training_kwargs =
  output_dir :: string
  num_train_epochs :: pyval
  per_device_train_batch_size :: pyval
  per_device_eval_batch_size :: pyval
  warmup_steps :: pyval
  weight_decay :: pyval
  logging_steps :: pyval

record 'o pipeline_kwargs =
  pipeline_model :: 'o
  pipeline_task :: string
  pipeline_tokenizer :: 'o
  pipeline_framework :: string
  pipeline_device :: int
  pipeline_max_length :: int
  pipeline_truncation :: bool

text \<open>The dataset class of \<^verbatim>\<open>train.py\<close>: the tokenizer's encodings (a dictionary from a
  key to one value per sample) and the labels.\<close>

record CustomDataset =
  encodings :: "(string \<times> pyval list) list"
  labels :: "pyval list"

record 'o trainer_kwargs =
  trainer_model :: 'o
  trainer_args :: 'o
  trainer_train_dataset :: CustomDataset
  trainer_eval_dataset :: CustomDataset

datatype 'o event =
    Upload string string
  | ReadCsv string
  | TokenizerFromPretrained string
  | ModelFromPretrained string distilbert_config
  | NewTrainingArguments training_kwargs
  | TrainerTrain
  | SavePretrained string
  | NewPipeline "'o pipeline_kwargs"

record 'o library =
  builtin_int :: "string \<Rightarrow> pyexn + pyval"
  builtin_float :: "string \<Rightarrow> pyexn + pyval"
  upload_data :: "string \<Rightarrow> string \<Rightarrow> pyexn + string"
  read_csv :: "string \<Rightarrow> pyexn + dataframe"
  tokenizer_from_pretrained :: "string \<Rightarrow> pyexn + 'o"
  tokenizer_call :: "'o \<Rightarrow> pyval list \<Rightarrow> pyexn + (string \<times> pyval list) list"
  torch_tensor :: "pyval \<Rightarrow> pyexn + 'o"
  new_TrainingArguments :: "training_kwargs \<Rightarrow> pyexn + 'o"
  model_from_pretrained :: "string \<Rightarrow> distilbert_config \<Rightarrow> pyexn + 'o"
  new_Trainer :: "'o trainer_kwargs \<Rightarrow> pyexn + 'o"
  trainer_train :: "'o \<Rightarrow> pyexn + 'o"
  save_pretrained :: "'o \<Rightarrow> string \<Rightarrow> pyexn + unit"
  cuda_is_available :: bool
  new_pipeline :: "'o pipeline_kwargs \<Rightarrow> pyexn + 'o"

text \<open>
  \<^verbatim>\<open>
  session = sagemaker.Session()
  train_dataset_uri=session.upload_data("train_dataset.csv", key_prefix="newsgroups")
  test_dataset_uri=session.upload_data("test_dataset.csv", key_prefix="newsgroups")
  \<close>
\<close>

definition upload_cell :: "'o library \<Rightarrow> ('o event list, string \<times> string) py" where
  "upload_cell lib =
     py_bind (lib_call (Upload ''train_dataset.csv'' ''newsgroups'')
                (upload_data lib ''train_dataset.csv'' ''newsgroups'')) (\<lambda>train_dataset_uri.
     py_bind (lib_call (Upload ''test_dataset.csv'' ''newsgroups'')
                (upload_data lib ''test_dataset.csv'' ''newsgroups'')) (\<lambda>test_dataset_uri.
     py_return (train_dataset_uri, test_dataset_uri)))"

section \<open>The training script: \<^verbatim>\<open>1_sources/train.py\<close>\<close>

definition MODEL_NAME :: string where
  "MODEL_NAME = ''distilbert-base-uncased''"

definition NUM_LABELS :: int where
  "NUM_LABELS = 6"

text \<open>\<^verbatim>\<open>DistilBertConfig()\<close>: of its fields, the scripts touch \<^verbatim>\<open>num_labels\<close> only, which
  the library sets to 2.\<close>

definition DistilBertConfig :: distilbert_config where
  "DistilBertConfig = \<lparr>num_labels = 2\<rparr>"

definition CustomDataset_init :: "(string \<times> pyval list) list \<Rightarrow> pyval list \<Rightarrow> CustomDataset" where
  "CustomDataset_init encodings' labels' = \<lparr>encodings = encodings', labels = labels'\<rparr>"

text \<open>Indexing a pandas \<^verbatim>\<open>Series\<close> that has the default index \<open>0, \<dots>, n - 1\<close> (a column of a
  data frame read from a file) by an integer: the integer is looked up as a label of the
  index, and a label that is not there raises \<^verbatim>\<open>KeyError\<close> with the label.
  \<open>decimal\<close> is the label as Python writes an integer.\<close>

function decimal :: "nat \<Rightarrow> string" where
  "decimal n =
     (if n < 10 then [''0123456789'' ! n]
      else decimal (n div 10) @ [''0123456789'' ! (n mod 10)])"
  by pat_completeness auto
termination
  by (relation "measure id") auto

definition series_getitem :: "'a list \<Rightarrow> nat \<Rightarrow> pyexn + 'a" where
  "series_getitem xs i =
     (if i < length xs then Inr (xs ! i) else Inl (PyExn ''KeyError'' (decimal i)))"

text \<open>\<^verbatim>\<open>__getitem__\<close>: a tensor of each encoding at \<open>idx\<close>, in the order of the keys, then
  the label's tensor under \<^verbatim>\<open>"label"\<close> (in place when the encodings already have that key).
  The values of the encodings are lists; the labels are the column \<^verbatim>\<open>category_id\<close> of the
  data frame, a \<^verbatim>\<open>Series\<close>.\<close>

fun getitem_encodings ::
  "'o library \<Rightarrow> (string \<times> pyval list) list \<Rightarrow> nat \<Rightarrow> pyexn + (string \<times> 'o) list" where
  "getitem_encodings lib [] idx = Inr []"
| "getitem_encodings lib ((key, val) # rest) idx =
     (case py_index val idx of
        Inl e \<Rightarrow> Inl e
      | Inr v \<Rightarrow>
          (case torch_tensor lib v of
             Inl e \<Rightarrow> Inl e
           | Inr t \<Rightarrow>
               (case getitem_encodings lib rest idx of
                  Inl e \<Rightarrow> Inl e
                | Inr item \<Rightarrow> Inr ((key, t) # item))))"

fun dict_setitem :: "(string \<times> 'v) list \<Rightarrow> string \<Rightarrow> 'v \<Rightarrow> (string \<times> 'v) list" where
  "dict_setitem [] k v = [(k, v)]"
| "dict_setitem ((k', v') # rest) k v =
     (if k' = k then (k, v) # rest else (k', v') # dict_setitem rest k v)"

definition CustomDataset_getitem ::
  "'o library \<Rightarrow> CustomDataset \<Rightarrow> nat \<Rightarrow> pyexn + (string \<times> 'o) list" where
  "CustomDataset_getitem lib self idx =
     (case getitem_encodings lib (encodings self) idx of
        Inl e \<Rightarrow> Inl e
      | Inr item \<Rightarrow>
          (case series_getitem (labels self) idx of
             Inl e \<Rightarrow> Inl e
           | Inr l \<Rightarrow>
               (case torch_tensor lib l of
                  Inl e \<Rightarrow> Inl e
                | Inr t \<Rightarrow> Inr (dict_setitem item ''label'' t))))"

definition CustomDataset_len :: "CustomDataset \<Rightarrow> nat" where
  "CustomDataset_len self = length (labels self)"

definition df_getitem :: "dataframe \<Rightarrow> string \<Rightarrow> pyexn + pyval list" where
  "df_getitem df key =
     (case map_of df key of None \<Rightarrow> Inl (PyExn ''KeyError'' key) | Some col \<Rightarrow> Inr col)"

definition get_tokenized_data ::
  "'o library \<Rightarrow> environ \<Rightarrow> ('o event list, CustomDataset \<times> CustomDataset) py" where
  "get_tokenized_data lib env =
     py_bind (lift (environ_getitem env ''SM_CHANNEL_TRAIN'')) (\<lambda>train_dir.
     py_bind (lib_call (ReadCsv (os_path_join train_dir ''train_dataset.csv''))
                (read_csv lib (os_path_join train_dir ''train_dataset.csv''))) (\<lambda>train_dataset.
     py_bind (lift (environ_getitem env ''SM_CHANNEL_TEST'')) (\<lambda>test_dir.
     py_bind (lib_call (ReadCsv (os_path_join test_dir ''test_dataset.csv''))
                (read_csv lib (os_path_join test_dir ''test_dataset.csv''))) (\<lambda>test_dataset.
     py_bind (lib_call (TokenizerFromPretrained MODEL_NAME)
                (tokenizer_from_pretrained lib MODEL_NAME)) (\<lambda>tokenizer.
     py_bind (lift (df_getitem train_dataset ''data'')) (\<lambda>train_texts.
     py_bind (lift (tokenizer_call lib tokenizer train_texts)) (\<lambda>train_encodings.
     py_bind (lift (df_getitem test_dataset ''data'')) (\<lambda>test_texts.
     py_bind (lift (tokenizer_call lib tokenizer test_texts)) (\<lambda>test_encodings.
     py_bind (lift (df_getitem train_dataset ''category_id'')) (\<lambda>train_labels.
     py_bind (lift (df_getitem test_dataset ''category_id'')) (\<lambda>test_labels.
     py_return (CustomDataset_init train_encodings train_labels,
                CustomDataset_init test_encodings test_labels))))))))))))"

text \<open>The namespace \<^verbatim>\<open>argparse\<close> returns: attribute names to values.\<close>

type_synonym namespace = "string \<rightharpoonup> pyval"

definition namespace_getattr :: "namespace \<Rightarrow> string \<Rightarrow> pyexn + pyval" where
  "namespace_getattr ns name =
     (case ns name of None \<Rightarrow> Inl (PyExn ''AttributeError'' name) | Some v \<Rightarrow> Inr v)"

text \<open>\<^verbatim>\<open>train(args)\<close>. The trainer trains the model object in place; here
  \<open>trainer_train\<close> returns the trained model, which is the one saved.\<close>

definition train :: "'o library \<Rightarrow> environ \<Rightarrow> namespace \<Rightarrow> ('o event list, unit) py" where
  "train lib env args =
     py_bind (get_tokenized_data lib env) (\<lambda>(train_enc_dataset, test_enc_dataset).
     py_bind (lift (namespace_getattr args ''epochs'')) (\<lambda>epochs.
     py_bind (lift (namespace_getattr args ''per_device_train_batch_size'')) (\<lambda>train_batch_size.
     py_bind (lift (namespace_getattr args ''per_device_eval_batch_size'')) (\<lambda>eval_batch_size.
     py_bind (lift (namespace_getattr args ''warmup_steps'')) (\<lambda>warmup.
     py_bind (lift (namespace_getattr args ''weight_decay'')) (\<lambda>decay.
     py_bind (lift (namespace_getattr args ''logging_steps'')) (\<lambda>logging.
     py_bind (lib_call (NewTrainingArguments
                  \<lparr>output_dir = os_getenv env ''SM_OUTPUT_DIR'' ''./'',
                   num_train_epochs = epochs,
                   per_device_train_batch_size = train_batch_size,
                   per_device_eval_batch_size = eval_batch_size,
                   warmup_steps = warmup,
                   weight_decay = decay,
                   logging_steps = logging\<rparr>)
                (new_TrainingArguments lib
                  \<lparr>output_dir = os_getenv env ''SM_OUTPUT_DIR'' ''./'',
                   num_train_epochs = epochs,
                   per_device_train_batch_size = train_batch_size,
                   per_device_eval_batch_size = eval_batch_size,
                   warmup_steps = warmup,
                   weight_decay = decay,
                   logging_steps = logging\<rparr>)) (\<lambda>training_args.
     py_bind (lib_call (ModelFromPretrained MODEL_NAME (DistilBertConfig\<lparr>num_labels := NUM_LABELS\<rparr>))
                (model_from_pretrained lib MODEL_NAME (DistilBertConfig\<lparr>num_labels := NUM_LABELS\<rparr>)))
       (\<lambda>model.
     py_bind (lift (new_Trainer lib
                  \<lparr>trainer_model = model, trainer_args = training_args,
                   trainer_train_dataset = train_enc_dataset,
                   trainer_eval_dataset = test_enc_dataset\<rparr>)) (\<lambda>trainer.
     py_bind (lib_call TrainerTrain (trainer_train lib trainer)) (\<lambda>trained_model.
     py_bind (lift (environ_getitem env ''SM_MODEL_DIR'')) (\<lambda>model_dir.
     lib_call (SavePretrained model_dir) (save_pretrained lib trained_model model_dir)))))))))))))"

subsection \<open>Command-line parsing\<close>


























subsection \<open>Command lines that parse\<close>






section \<open>The inference script: \<^verbatim>\<open>1_sources/inference.py\<close>\<close>

definition MAX_LENGTH :: int where
  "MAX_LENGTH = 512"

text \<open>\<^verbatim>\<open>model_fn(model_dir)\<close>.\<close>

definition model_fn :: "'o library \<Rightarrow> string \<Rightarrow> ('o event list, 'o) py" where
  "model_fn lib model_dir =
     (let device_id = (if cuda_is_available lib then 0 else - 1) in
      py_bind (lib_call (TokenizerFromPretrained MODEL_NAME)
                 (tokenizer_from_pretrained lib MODEL_NAME)) (\<lambda>tokenizer.
      py_bind (lib_call (ModelFromPretrained model_dir (DistilBertConfig\<lparr>num_labels := NUM_LABELS\<rparr>))
                 (model_from_pretrained lib model_dir (DistilBertConfig\<lparr>num_labels := NUM_LABELS\<rparr>)))
        (\<lambda>model.
      lib_call (NewPipeline
                  \<lparr>pipeline_model = model, pipeline_task = ''text-classification'',
                   pipeline_tokenizer = tokenizer, pipeline_framework = ''pt'',
                   pipeline_device = device_id, pipeline_max_length = MAX_LENGTH,
                   pipeline_truncation = True\<rparr>)
               (new_pipeline lib
                  \<lparr>pipeline_model = model, pipeline_task = ''text-classification'',
                   pipeline_tokenizer = tokenizer, pipeline_framework = ''pt'',
                   pipeline_device = device_id, pipeline_max_length = MAX_LENGTH,
                   pipeline_truncation = True\<rparr>))))"

datatype 'j inference_event = PipelineCall 'j

text \<open>
  \<^verbatim>\<open>transform_fn(inference_pipeline, data, content_type, accept_type)\<close>. The functions
  \<^verbatim>\<open>json.loads\<close> and \<^verbatim>\<open>json.dumps\<close> of the standard library and the pipeline object
  are parameters: each returns a value or raises. The pipeline call is recorded.
\<close>

definition transform_fn ::
  "(string \<Rightarrow> pyexn + 'j) \<Rightarrow> ('p \<Rightarrow> pyexn + string) \<Rightarrow> ('j \<Rightarrow> pyexn + 'p) \<Rightarrow>
     string \<Rightarrow> string \<Rightarrow> string \<Rightarrow> ('j inference_event list, string) py" where
  "transform_fn json_loads json_dumps inference_pipeline data content_type accept_type =
     py_bind
       (if py_in ''json'' content_type then lift (json_loads data)
        else py_bind (lift (NotImplemented_call ''Only 'application/json' content type is supported.''))
               py_raise)
       (\<lambda>deser_data.
          py_bind (lib_call (PipelineCall deser_data) (inference_pipeline deser_data))
            (\<lambda>predictions.
               if py_in ''json'' accept_type then lift (json_dumps predictions)
               else py_bind (lift (NotImplemented_call ''Only 'application/json' accept type is supported.''))
                      py_raise))"

section \<open>Concrete inputs\<close>

text \<open>
  A library, an environment and a JSON codec with fixed, simple behaviour, to run the
  scripts on concrete inputs: the conversions know a few numerals, every other call of the
  library succeeds, and the JSON functions handle lists of strings.
\<close>

definition example_int :: "string \<Rightarrow> pyexn + pyval" where
  "example_int s =
     (case map_of [(''1'', 1), (''3'', 3), (''16'', 16), (''64'', 64), (''100'', 100)] s of
        Some n \<Rightarrow> Inr (PyInt n)
      | None \<Rightarrow> Inl (PyExn ''ValueError'' s))"

definition example_float :: "string \<Rightarrow> pyexn + pyval" where
  "example_float s =
     (case map_of [(''0.01'', 0.01), (''0.5'', 0.5), (''100'', 100)] s of
        Some x \<Rightarrow> Inr (PyFloat x)
      | None \<Rightarrow> Inl (PyExn ''ValueError'' s))"

definition example_library :: "string library" where
  "example_library =
     \<lparr>builtin_int = example_int,
      builtin_float = example_float,
      upload_data = (\<lambda>path key_prefix. Inr (''s3://bucket/'' @ key_prefix @ ''/'' @ path)),
      read_csv = (\<lambda>path. Inr [(''data'', [PyStr ''text'']), (''category_id'', [PyInt 4])]),
      tokenizer_from_pretrained = (\<lambda>name. Inr (''tokenizer:'' @ name)),
      tokenizer_call = (\<lambda>tokenizer texts.
        Inr [(''input_ids'', map (\<lambda>_. PyList [PyInt 101, PyInt 102]) texts)]),
      torch_tensor = (\<lambda>v. Inr ''tensor''),
      new_TrainingArguments = (\<lambda>kwargs. Inr ''training_args''),
      model_from_pretrained = (\<lambda>name config. Inr (''model:'' @ name)),
      new_Trainer = (\<lambda>kwargs. Inr ''trainer''),
      trainer_train = (\<lambda>trainer. Inr ''trained_model''),
      save_pretrained = (\<lambda>model path. Inr ()),
      cuda_is_available = False,
      new_pipeline = (\<lambda>kwargs. Inr ''pipeline'')\<rparr>"

definition example_environ :: environ where
  "example_environ =
     [''SM_CHANNEL_TRAIN'' \<mapsto> ''/opt/ml/input/data/train'',
      ''SM_CHANNEL_TEST'' \<mapsto> ''/opt/ml/input/data/test'',
      ''SM_MODEL_DIR'' \<mapsto> ''/opt/ml/model'']"

definition example_train_dataset :: bunch where
  "example_train_dataset = \<lparr>bunch_data = [''a'', ''b''], bunch_target = [0, 1]\<rparr>"

definition example_test_dataset :: bunch where
  "example_test_dataset = \<lparr>bunch_data = [''c''], bunch_target = [5]\<rparr>"

definition example_request :: string where
  "example_request = CHR ''['' # CHR 0x22 # ''rec.autos'' @ [CHR 0x22, CHR '']'']"

definition example_json_loads :: "string \<Rightarrow> pyexn + string list" where
  "example_json_loads data =
     (if data = ''[]'' then Inr []
      else if data = example_request then Inr [''rec.autos'']
      else Inl (PyExn ''JSONDecodeError'' ''Expecting value''))"

definition example_pipeline :: "string list \<Rightarrow> pyexn + string list" where
  "example_pipeline texts = Inr (map (\<lambda>_. ''LABEL_1'') texts)"

definition failing_pipeline :: "string list \<Rightarrow> pyexn + string list" where
  "failing_pipeline texts = Inl (PyExn ''RuntimeError'' ''CUDA out of memory'')"

definition example_json_dumps :: "string list \<Rightarrow> pyexn + string" where
  "example_json_dumps predictions =
     Inr (''['' @ concat (map (\<lambda>p. CHR 0x22 # p @ [CHR 0x22]) predictions) @ '']'')"

section \<open>Lemmas about computations and paths\<close>

lemma py_in_sublist: "py_in needle haystack \<longleftrightarrow> sublist needle haystack"
  by (induction haystack) (auto simp: sublist_Cons_right)

lemmas py_monad_defs = py_return_def py_raise_def py_bind_def lift_def lib_call_def run_def

lemmas example_defs = example_library_def example_environ_def example_int_def example_float_def
  example_request_def example_json_loads_def example_json_dumps_def example_pipeline_def
  failing_pipeline_def example_train_dataset_def example_test_dataset_def



lemma py_bind_step: "m st = (Inr x, st') \<Longrightarrow> py_bind m f st = f x st'"
  by (simp add: py_bind_def)







lemma py_for_append:
  "py_for (xs @ ys) body = py_bind (py_for xs body) (\<lambda>_. py_for ys body)"
proof (induction xs)
  case Nil
  show ?case by (simp add: py_bind_def py_return_def)
next
  case (Cons x xs)
  show ?case
  proof
    fix st
    show "py_for ((x # xs) @ ys) body st = py_bind (py_for (x # xs) body) (\<lambda>_. py_for ys body) st"
      using Cons by (cases "body x st") (auto simp: py_bind_def split: sum.splits)
  qed
qed

lemma takeWhile_stops:
  "(\<forall>x\<in>set ys. P x) \<Longrightarrow> \<not> P z \<Longrightarrow> takeWhile P (ys @ z # xs) = ys"
  by (induction ys) auto

lemma os_path_basename_join:
  assumes "CHR ''/'' \<notin> set name"
  shows "os_path_basename (os_path_join dir name) = name"
proof -
  have no_abs: "\<not> prefix ''/'' name"
    using assms by (cases name) auto
  have tw: "takeWhile (\<lambda>c. c \<noteq> CHR ''/'') (rev name @ CHR ''/'' # xs) = rev name" for xs
  proof -
    have "\<forall>x\<in>set (rev name). x \<noteq> CHR ''/''" using assms by auto
    then show ?thesis by (intro takeWhile_stops) simp_all
  qed
  have all: "takeWhile (\<lambda>c. c \<noteq> CHR ''/'') (rev name) = rev name"
    using assms by (intro takeWhile_eq_all_conv [THEN iffD2]) auto
  have bare: "os_path_basename name = name"
    unfolding os_path_basename_def all by simp
  show ?thesis
  proof (cases "dir = []")
    case True
    with no_abs bare show ?thesis
      by (simp add: os_path_join_def)
  next
    case False
    show ?thesis
    proof (cases "suffix ''/'' dir")
      case True
      then obtain d where "dir = d @ ''/''" by (auto simp: suffix_def)
      with no_abs tw show ?thesis
        by (simp add: os_path_join_def os_path_basename_def)
    next
      case False
      with \<open>dir \<noteq> []\<close> no_abs tw show ?thesis
        by (simp add: os_path_join_def os_path_basename_def)
    qed
  qed
qed

section \<open>The request handler\<close>

text \<open>
  C1. With a content type and an accept type that both contain \<open>json\<close>, a payload that
  \<^verbatim>\<open>json.loads\<close> decodes and a pipeline that returns predictions which \<^verbatim>\<open>json.dumps\<close>
  encodes, \<open>transform_fn\<close> returns the JSON text of the pipeline's predictions on the
  decoded payload, after exactly one call of the pipeline.
\<close>

theorem transform_fn_json_roundtrip:
  assumes "py_in ''json'' content_type" and "py_in ''json'' accept_type"
    and "json_loads data = Inr payload"
    and "inference_pipeline payload = Inr predictions"
    and "json_dumps predictions = Inr response"
  shows "run (transform_fn json_loads json_dumps inference_pipeline data content_type accept_type)
           = (Inr response, [PipelineCall payload])"
  using assms by (simp add: transform_fn_def py_monad_defs)

theorem transform_fn_json_roundtrip_witness:
  "py_in ''json'' ''application/json''
   \<and> example_json_loads example_request = Inr [''rec.autos'']
   \<and> example_pipeline [''rec.autos''] = Inr [''LABEL_1'']
   \<and> example_json_dumps [''LABEL_1''] = Inr (CHR ''['' # CHR 0x22 # ''LABEL_1'' @ [CHR 0x22, CHR '']''])
   \<and> run (transform_fn example_json_loads example_json_dumps example_pipeline
         example_request ''application/json'' ''application/json'')
       = (Inr (CHR ''['' # CHR 0x22 # ''LABEL_1'' @ [CHR 0x22, CHR '']'']),
          [PipelineCall [''rec.autos'']])"
proof -
  have ct: "py_in ''json'' ''application/json''" by simp
  have loads: "example_json_loads example_request = Inr [''rec.autos'']"
    by (simp add: example_defs)
  have pipe: "example_pipeline [''rec.autos''] = Inr [''LABEL_1'']"
    by (simp add: example_defs)
  have dumps: "example_json_dumps [''LABEL_1'']
                 = Inr (CHR ''['' # CHR 0x22 # ''LABEL_1'' @ [CHR 0x22, CHR '']''])"
    by (simp add: example_defs)
  from transform_fn_json_roundtrip [of "''application/json''" "''application/json''"
      example_json_loads example_request "[''rec.autos'']" example_pipeline "[''LABEL_1'']"
      example_json_dumps "CHR ''['' # CHR 0x22 # ''LABEL_1'' @ [CHR 0x22, CHR '']'']"]
    ct loads pipe dumps
  show ?thesis by blast
qed

text \<open>
  C2. The specification asks for a "not implemented" exception that carries the fixed
  message. The script writes \<^verbatim>\<open>raise NotImplemented("...")\<close>, so at the content type
  \<^verbatim>\<open>text/csv\<close> the handler raises a \<^verbatim>\<open>TypeError\<close> whose message says that
  \<^verbatim>\<open>NotImplementedType\<close> is not callable: neither the class nor the message that was
  meant. The same happens on the accept-type branch.
\<close>

theorem transform_fn_unsupported_raises_TypeError:
  "run (transform_fn json_loads json_dumps inference_pipeline data ''text/csv'' ''application/json'')
     = (Inl (PyExn ''TypeError'' '''NotImplementedType' object is not callable''), [])
   \<and> run (transform_fn example_json_loads example_json_dumps example_pipeline
          example_request ''application/json'' ''text/csv'')
     = (Inl (PyExn ''TypeError'' '''NotImplementedType' object is not callable''),
        [PipelineCall [''rec.autos'']])
   \<and> PyExn ''TypeError'' '''NotImplementedType' object is not callable''
       \<noteq> NotImplementedError ''Only 'application/json' content type is supported.''
   \<and> PyExn ''TypeError'' '''NotImplementedType' object is not callable''
       \<noteq> NotImplementedError ''Only 'application/json' accept type is supported.''"
  by (simp add: transform_fn_def py_monad_defs NotImplemented_call_def NotImplementedError_def
      example_defs)

lemma transform_fn_loads_raises:
  assumes "py_in ''json'' content_type" and "json_loads data = Inl e"
  shows "run (transform_fn json_loads json_dumps inference_pipeline data content_type accept_type)
           = (Inl e, [])"
  using assms by (simp add: transform_fn_def py_monad_defs)

lemma transform_fn_pipeline_raises:
  assumes "py_in ''json'' content_type" and "json_loads data = Inr payload"
    and "inference_pipeline payload = Inl e"
  shows "run (transform_fn json_loads json_dumps inference_pipeline data content_type accept_type)
           = (Inl e, [PipelineCall payload])"
  using assms by (simp add: transform_fn_def py_monad_defs)

lemma transform_fn_dumps_raises:
  assumes "py_in ''json'' content_type" and "py_in ''json'' accept_type"
    and "json_loads data = Inr payload" and "inference_pipeline payload = Inr predictions"
    and "json_dumps predictions = Inl e"
  shows "run (transform_fn json_loads json_dumps inference_pipeline data content_type accept_type)
           = (Inl e, [PipelineCall payload])"
  using assms by (simp add: transform_fn_def py_monad_defs)

lemma transform_fn_exception_origin:
  assumes "run (transform_fn json_loads json_dumps inference_pipeline data content_type accept_type)
             = (Inl e, calls)"
  shows "NotImplemented_call [] = Inl e
       \<or> json_loads data = Inl e
       \<or> (\<exists>payload. json_loads data = Inr payload
            \<and> (inference_pipeline payload = Inl e
               \<or> (\<exists>predictions. inference_pipeline payload = Inr predictions
                    \<and> json_dumps predictions = Inl e)))"
proof (cases "py_in ''json'' content_type")
  case False
  with assms show ?thesis
    by (auto simp: transform_fn_def py_monad_defs NotImplemented_call_def)
next
  case ct: True
  show ?thesis
  proof (cases "json_loads data")
    case (Inl e')
    with assms ct show ?thesis by (simp add: transform_fn_def py_monad_defs)
  next
    case loads: (Inr payload)
    show ?thesis
    proof (cases "inference_pipeline payload")
      case (Inl e')
      with assms ct loads show ?thesis by (simp add: transform_fn_def py_monad_defs)
    next
      case (Inr predictions)
      with assms ct loads show ?thesis
        by (cases "py_in ''json'' accept_type")
          (auto simp: transform_fn_def py_monad_defs NotImplemented_call_def)
    qed
  qed
qed

text \<open>
  C5. An exception raised by \<^verbatim>\<open>json.loads\<close>, by the pipeline or by \<^verbatim>\<open>json.dumps\<close>
  leaves \<open>transform_fn\<close> as it was raised; and every exception that leaves
  \<open>transform_fn\<close> is either the one of an unsupported content or accept type, or exactly
  the exception one of these three calls raised.
\<close>

theorem transform_fn_propagates_unmodified:
  "(py_in ''json'' content_type \<and> json_loads data = Inl e \<longrightarrow>
      run (transform_fn json_loads json_dumps inference_pipeline data content_type accept_type)
        = (Inl e, []))
   \<and> (py_in ''json'' content_type \<and> json_loads data = Inr payload
        \<and> inference_pipeline payload = Inl e \<longrightarrow>
      run (transform_fn json_loads json_dumps inference_pipeline data content_type accept_type)
        = (Inl e, [PipelineCall payload]))
   \<and> (py_in ''json'' content_type \<and> py_in ''json'' accept_type \<and> json_loads data = Inr payload
        \<and> inference_pipeline payload = Inr predictions \<and> json_dumps predictions = Inl e \<longrightarrow>
      run (transform_fn json_loads json_dumps inference_pipeline data content_type accept_type)
        = (Inl e, [PipelineCall payload]))
   \<and> (run (transform_fn json_loads json_dumps inference_pipeline data content_type accept_type)
        = (Inl e, calls) \<longrightarrow>
      NotImplemented_call [] = Inl e
      \<or> json_loads data = Inl e
      \<or> (\<exists>v. json_loads data = Inr v
           \<and> (inference_pipeline v = Inl e
              \<or> (\<exists>p. inference_pipeline v = Inr p \<and> json_dumps p = Inl e))))"
  using transform_fn_loads_raises [of content_type json_loads data e]
    transform_fn_pipeline_raises [of content_type json_loads data payload inference_pipeline e]
    transform_fn_dumps_raises [of content_type accept_type json_loads data payload
      inference_pipeline predictions json_dumps e]
    transform_fn_exception_origin [of json_loads json_dumps inference_pipeline data
      content_type accept_type e calls]
  by blast

theorem transform_fn_propagates_unmodified_witness:
  "py_in ''json'' ''application/json''
   \<and> example_json_loads ''{'' = Inl (PyExn ''JSONDecodeError'' ''Expecting value'')
   \<and> run (transform_fn example_json_loads example_json_dumps example_pipeline
          ''{'' ''application/json'' ''application/json'')
     = (Inl (PyExn ''JSONDecodeError'' ''Expecting value''), [])
   \<and> failing_pipeline [''rec.autos''] = Inl (PyExn ''RuntimeError'' ''CUDA out of memory'')
   \<and> run (transform_fn example_json_loads example_json_dumps failing_pipeline
          example_request ''application/json'' ''application/json'')
     = (Inl (PyExn ''RuntimeError'' ''CUDA out of memory''), [PipelineCall [''rec.autos'']])"
proof -
  have ct: "py_in ''json'' ''application/json''" by simp
  have bad: "example_json_loads ''{'' = Inl (PyExn ''JSONDecodeError'' ''Expecting value'')"
    by (simp add: example_defs)
  have loads: "example_json_loads example_request = Inr [''rec.autos'']"
    by (simp add: example_defs)
  have pipe: "failing_pipeline [''rec.autos''] = Inl (PyExn ''RuntimeError'' ''CUDA out of memory'')"
    by (simp add: example_defs)
  have "run (transform_fn example_json_loads example_json_dumps example_pipeline
          ''{'' ''application/json'' ''application/json'')
     = (Inl (PyExn ''JSONDecodeError'' ''Expecting value''), [])"
    using ct bad transform_fn_propagates_unmodified [of "''application/json''"
        example_json_loads "''{''" "PyExn ''JSONDecodeError'' ''Expecting value''"
        example_json_dumps example_pipeline "''application/json''"]
    by blast
  moreover have "run (transform_fn example_json_loads example_json_dumps failing_pipeline
          example_request ''application/json'' ''application/json'')
     = (Inl (PyExn ''RuntimeError'' ''CUDA out of memory''), [PipelineCall [''rec.autos'']])"
    using ct loads pipe transform_fn_propagates_unmodified [of "''application/json''"
        example_json_loads example_request "PyExn ''RuntimeError'' ''CUDA out of memory''"
        example_json_dumps failing_pipeline "''application/json''" "[''rec.autos'']"]
    by blast
  ultimately show ?thesis using ct bad pipe by blast
qed

text \<open>
  C9. With a content type that contains \<open>json\<close> and an accept type that does not, every
  call fails, and the accept type is looked at last: when \<^verbatim>\<open>json.loads\<close> decodes the
  payload, the pipeline is called on the decoded payload, and the exception is the
  pipeline's own if it raised and otherwise the one of the accept-type branch, raised after
  the pipeline returned. (When \<^verbatim>\<open>json.loads\<close> raises there is no decoded payload: its
  exception leaves and nothing has been called.)
\<close>

theorem transform_fn_inference_before_accept_check:
  assumes "py_in ''json'' content_type" and "\<not> py_in ''json'' accept_type"
  shows "run (transform_fn json_loads json_dumps inference_pipeline data content_type accept_type)
           = (case json_loads data of
                Inl e \<Rightarrow> (Inl e, [])
              | Inr payload \<Rightarrow>
                  (Inl (case inference_pipeline payload of
                          Inl e \<Rightarrow> e
                        | Inr predictions \<Rightarrow>
                            PyExn ''TypeError'' '''NotImplementedType' object is not callable''),
                   [PipelineCall payload]))"
proof (cases "json_loads data")
  case (Inl e)
  with assms show ?thesis by (simp add: transform_fn_def py_monad_defs)
next
  case (Inr payload)
  with assms show ?thesis
    by (cases "inference_pipeline payload")
      (simp_all add: transform_fn_def py_monad_defs NotImplemented_call_def)
qed

theorem transform_fn_inference_before_accept_check_witness:
  "py_in ''json'' ''application/json'' \<and> \<not> py_in ''json'' ''text/csv''
   \<and> run (transform_fn example_json_loads example_json_dumps example_pipeline
         example_request ''application/json'' ''text/csv'')
       = (Inl (PyExn ''TypeError'' '''NotImplementedType' object is not callable''),
          [PipelineCall [''rec.autos'']])"
proof -
  have ct: "py_in ''json'' ''application/json''" by simp
  have at: "\<not> py_in ''json'' ''text/csv''" by simp
  have loads: "example_json_loads example_request = Inr [''rec.autos'']"
    by (simp add: example_defs)
  have pipe: "example_pipeline [''rec.autos''] = Inr [''LABEL_1'']"
    by (simp add: example_defs)
  from transform_fn_inference_before_accept_check [of "''application/json''" "''text/csv''"
      example_json_loads example_json_dumps example_pipeline example_request]
    ct at
  show ?thesis by (simp add: loads pipe)
qed

section \<open>The model loader\<close>

text \<open>
  C6. When the tokenizer loads from the pretrained name, the model loads from the model
  directory with the configuration of six labels, and the pipeline is built, \<open>model_fn\<close>
  returns that pipeline: a text-classification pipeline of this model and this tokenizer.
\<close>

theorem model_fn_returns_pipeline:
  assumes "tokenizer_from_pretrained lib ''distilbert-base-uncased'' = Inr tokenizer"
    and "model_from_pretrained lib model_dir \<lparr>num_labels = 6\<rparr> = Inr model"
    and "new_pipeline lib
           \<lparr>pipeline_model = model, pipeline_task = ''text-classification'',
            pipeline_tokenizer = tokenizer, pipeline_framework = ''pt'',
            pipeline_device = (if cuda_is_available lib then 0 else - 1),
            pipeline_max_length = 512, pipeline_truncation = True\<rparr> = Inr inference_pipeline"
  shows "run (model_fn lib model_dir)
           = (Inr inference_pipeline,
              [TokenizerFromPretrained ''distilbert-base-uncased'',
               ModelFromPretrained model_dir \<lparr>num_labels = 6\<rparr>,
               NewPipeline
                 \<lparr>pipeline_model = model, pipeline_task = ''text-classification'',
                  pipeline_tokenizer = tokenizer, pipeline_framework = ''pt'',
                  pipeline_device = (if cuda_is_available lib then 0 else - 1),
                  pipeline_max_length = 512, pipeline_truncation = True\<rparr>])"
  using assms
  by (simp add: model_fn_def run_def py_bind_def lib_call_def MODEL_NAME_def NUM_LABELS_def
      MAX_LENGTH_def DistilBertConfig_def Let_def)

theorem model_fn_returns_pipeline_witness:
  "tokenizer_from_pretrained example_library ''distilbert-base-uncased''
     = Inr ''tokenizer:distilbert-base-uncased''
   \<and> model_from_pretrained example_library ''/opt/ml/model'' \<lparr>num_labels = 6\<rparr>
     = Inr ''model:/opt/ml/model''
   \<and> run (model_fn example_library ''/opt/ml/model'')
     = (Inr ''pipeline'',
        [TokenizerFromPretrained ''distilbert-base-uncased'',
         ModelFromPretrained ''/opt/ml/model'' \<lparr>num_labels = 6\<rparr>,
         NewPipeline
           \<lparr>pipeline_model = ''model:/opt/ml/model'', pipeline_task = ''text-classification'',
            pipeline_tokenizer = ''tokenizer:distilbert-base-uncased'', pipeline_framework = ''pt'',
            pipeline_device = - 1, pipeline_max_length = 512, pipeline_truncation = True\<rparr>])"
proof -
  have tok: "tokenizer_from_pretrained example_library ''distilbert-base-uncased''
               = Inr ''tokenizer:distilbert-base-uncased''"
    by (simp add: example_library_def)
  have model: "model_from_pretrained example_library ''/opt/ml/model'' \<lparr>num_labels = 6\<rparr>
                 = Inr ''model:/opt/ml/model''"
    by (simp add: example_library_def)
  have pipe: "new_pipeline example_library
           \<lparr>pipeline_model = ''model:/opt/ml/model'', pipeline_task = ''text-classification'',
            pipeline_tokenizer = ''tokenizer:distilbert-base-uncased'', pipeline_framework = ''pt'',
            pipeline_device = (if cuda_is_available example_library then 0 else - 1),
            pipeline_max_length = 512, pipeline_truncation = True\<rparr> = Inr ''pipeline''"
    by (simp add: example_library_def)
  have cpu: "\<not> cuda_is_available example_library"
    by (simp add: example_library_def)
  from model_fn_returns_pipeline [OF tok model pipe] tok model cpu
  show ?thesis by simp
qed

section \<open>The dataset export\<close>

lemma write_rows_upto:
  assumes "k \<le> length ds" and "k \<le> length ts" and "fs name = Some ls"
  shows "py_for [0..<k] (\<lambda>i.
           py_bind (lift (py_index ds i)) (\<lambda>d.
           py_bind (lift (py_index ts i)) (\<lambda>t.
           write_line name (RowLine d t)))) fs
         = (Inr (), fs(name \<mapsto> ls @ map (\<lambda>i. RowLine (ds ! i) (ts ! i)) [0..<k]))"
  using assms
proof (induction k)
  case 0
  then show ?case by (simp add: py_return_def map_upd_triv)
next
  case (Suc k)
  let ?body = "\<lambda>i. py_bind (lift (py_index ds i)) (\<lambda>d.
                 py_bind (lift (py_index ts i)) (\<lambda>t. write_line name (RowLine d t)))"
  let ?rows = "ls @ map (\<lambda>i. RowLine (ds ! i) (ts ! i)) [0..<k]"
  have before: "py_for [0..<k] ?body fs = (Inr (), fs(name \<mapsto> ?rows))"
    using Suc.prems by (intro Suc.IH) simp_all
  have row: "?body k (fs(name \<mapsto> ?rows))
               = (Inr (), fs(name \<mapsto> ?rows @ [RowLine (ds ! k) (ts ! k)]))"
    using Suc.prems by (simp add: py_bind_def lift_def py_index_def write_line_def)
  have "py_for [0..<Suc k] ?body fs = py_bind (?body k) (\<lambda>_. py_return ()) (fs(name \<mapsto> ?rows))"
    by (simp add: py_for_append py_bind_step [of "py_for [0..<k] ?body" fs, OF before])
  also have "\<dots> = (Inr (), fs(name \<mapsto> ?rows @ [RowLine (ds ! k) (ts ! k)]))"
    by (simp add: py_bind_step [of "?body k" "fs(name \<mapsto> ?rows)", OF row] py_return_def)
  finally have "py_for [0..<Suc k] ?body fs
                  = (Inr (), fs(name \<mapsto> ?rows @ [RowLine (ds ! k) (ts ! k)]))" .
  moreover have "?rows @ [RowLine (ds ! k) (ts ! k)]
                   = ls @ map (\<lambda>i. RowLine (ds ! i) (ts ! i)) [0..<Suc k]"
    by simp
  ultimately show ?case by (simp only:)
qed

lemma export_file:
  assumes "length ds \<le> length ts"
  shows "py_bind (open_w name) (\<lambda>_.
         py_bind (write_line name (HeaderLine [''data'', ''category_id''])) (\<lambda>_.
         py_for [0..<length ds] (\<lambda>i.
           py_bind (lift (py_index ds i)) (\<lambda>d.
           py_bind (lift (py_index ts i)) (\<lambda>t.
           write_line name (RowLine d t)))))) fs
         = (Inr (), fs(name \<mapsto> HeaderLine [''data'', ''category_id'']
                                  # map (\<lambda>i. RowLine (ds ! i) (ts ! i)) [0..<length ds]))"
proof -
  let ?fs1 = "fs(name \<mapsto> [HeaderLine [''data'', ''category_id'']])"
  have "py_for [0..<length ds] (\<lambda>i.
           py_bind (lift (py_index ds i)) (\<lambda>d.
           py_bind (lift (py_index ts i)) (\<lambda>t.
           write_line name (RowLine d t)))) ?fs1
        = (Inr (), ?fs1(name \<mapsto> [HeaderLine [''data'', ''category_id'']]
                                   @ map (\<lambda>i. RowLine (ds ! i) (ts ! i)) [0..<length ds]))"
    using assms by (intro write_rows_upto) simp_all
  then show ?thesis
    by (simp add: py_bind_def open_w_def write_line_def)
qed

text \<open>What the export cell writes when every sample has a label: both files get the rows of
  \<^verbatim>\<open>train_dataset\<close>, whatever \<^verbatim>\<open>test_dataset\<close> holds.\<close>

lemma export_cell_writes_train_rows:
  assumes "length (bunch_data train_dataset) \<le> length (bunch_target train_dataset)"
  shows "export_cell train_dataset test_dataset fs
         = (Inr (),
            fs(''train_dataset.csv'' \<mapsto> HeaderLine [''data'', ''category_id'']
                 # map (\<lambda>i. RowLine (bunch_data train_dataset ! i) (bunch_target train_dataset ! i))
                     [0..<length (bunch_data train_dataset)],
               ''test_dataset.csv'' \<mapsto> HeaderLine [''data'', ''category_id'']
                 # map (\<lambda>i. RowLine (bunch_data train_dataset ! i) (bunch_target train_dataset ! i))
                     [0..<length (bunch_data train_dataset)]))"
proof -
  let ?rows = "HeaderLine [''data'', ''category_id'']
                 # map (\<lambda>i. RowLine (bunch_data train_dataset ! i) (bunch_target train_dataset ! i))
                     [0..<length (bunch_data train_dataset)]"
  let ?export = "\<lambda>name.
       py_bind (open_w name) (\<lambda>_.
       py_bind (write_line name (HeaderLine [''data'', ''category_id''])) (\<lambda>_.
       py_for [0..<length (bunch_data train_dataset)] (\<lambda>i.
         py_bind (lift (py_index (bunch_data train_dataset) i)) (\<lambda>d.
         py_bind (lift (py_index (bunch_target train_dataset) i)) (\<lambda>t.
         write_line name (RowLine d t))))))"
  have first: "?export ''train_dataset.csv'' fs = (Inr (), fs(''train_dataset.csv'' \<mapsto> ?rows))"
    by (rule export_file [OF assms])
  have second: "?export ''test_dataset.csv'' (fs(''train_dataset.csv'' \<mapsto> ?rows))
                  = (Inr (), fs(''train_dataset.csv'' \<mapsto> ?rows, ''test_dataset.csv'' \<mapsto> ?rows))"
    by (rule export_file [OF assms])
  have "export_cell train_dataset test_dataset fs
          = py_bind (?export ''test_dataset.csv'') (\<lambda>_. py_return ()) (fs(''train_dataset.csv'' \<mapsto> ?rows))"
    unfolding export_cell_def
    by (simp add: py_bind_step [of "?export ''train_dataset.csv''" fs, OF first])
  also have "\<dots> = (Inr (), fs(''train_dataset.csv'' \<mapsto> ?rows, ''test_dataset.csv'' \<mapsto> ?rows))"
    by (simp add: py_bind_step [of "?export ''test_dataset.csv''" "fs(''train_dataset.csv'' \<mapsto> ?rows)", OF second]
        py_return_def)
  finally show ?thesis .
qed

text \<open>
  C3. The specification asks that each output file hold one row per sample of the
  corresponding dataset, with its label. With a training set of two samples and a test set of one, the
  cell returns normally and \<^verbatim>\<open>test_dataset.csv\<close> holds the two rows of the training set:
  the loop body names \<^verbatim>\<open>train_dataset\<close> for both files.
\<close>

theorem export_cell_test_file_holds_train_rows:
  "fst (export_cell example_train_dataset example_test_dataset Map.empty) = Inr ()
   \<and> snd (export_cell example_train_dataset example_test_dataset Map.empty) ''test_dataset.csv''
     = Some [HeaderLine [''data'', ''category_id''], RowLine ''a'' 0, RowLine ''b'' 1]
   \<and> snd (export_cell example_train_dataset example_test_dataset Map.empty) ''train_dataset.csv''
     = Some [HeaderLine [''data'', ''category_id''], RowLine ''a'' 0, RowLine ''b'' 1]
   \<and> bunch_data example_test_dataset = [''c''] \<and> bunch_target example_test_dataset = [5]"
  by (simp add: export_cell_def py_bind_def py_return_def lift_def py_index_def open_w_def
      write_line_def upt_rec example_defs)

section \<open>The training script\<close>







lemma get_tokenized_data_reads:
  assumes "env ''SM_CHANNEL_TRAIN'' = Some train_dir" and "env ''SM_CHANNEL_TEST'' = Some test_dir"
    and "read_csv lib (os_path_join train_dir ''train_dataset.csv'') = Inr df"
  shows "\<exists>r calls. run (get_tokenized_data lib env)
           = (r, ReadCsv (os_path_join train_dir ''train_dataset.csv'')
                 # ReadCsv (os_path_join test_dir ''test_dataset.csv'') # calls)"
  using assms
  by (cases "read_csv lib (os_path_join test_dir ''test_dataset.csv'')")
    (auto simp: get_tokenized_data_def run_def py_bind_def lift_def lib_call_def py_return_def
      environ_getitem_def split: sum.splits prod.splits)

lemma upload_cell_returns:
  assumes "upload_data lib ''train_dataset.csv'' ''newsgroups'' = Inr train_uri"
    and "upload_data lib ''test_dataset.csv'' ''newsgroups'' = Inr test_uri"
  shows "run (upload_cell lib)
           = (Inr (train_uri, test_uri),
              [Upload ''train_dataset.csv'' ''newsgroups'', Upload ''test_dataset.csv'' ''newsgroups''])"
  using assms by (simp add: upload_cell_def run_def py_bind_def lib_call_def py_return_def)

text \<open>
  C8, as stated, fails: the training script reads the exported files. The export
  cell writes \<^verbatim>\<open>train_dataset.csv\<close>, and \<open>get_tokenized_data\<close> calls \<^verbatim>\<open>pd.read_csv\<close> on
  the file of that name under the training channel, and on \<^verbatim>\<open>test_dataset.csv\<close> under the
  test channel.
\<close>

theorem get_tokenized_data_reads_exported_csv:
  "snd (export_cell example_train_dataset example_test_dataset Map.empty) ''train_dataset.csv''
     = Some [HeaderLine [''data'', ''category_id''], RowLine ''a'' 0, RowLine ''b'' 1]
   \<and> snd (run (get_tokenized_data example_library example_environ))
     = [ReadCsv ''/opt/ml/input/data/train/train_dataset.csv'',
        ReadCsv ''/opt/ml/input/data/test/test_dataset.csv'',
        TokenizerFromPretrained ''distilbert-base-uncased'']
   \<and> os_path_basename ''/opt/ml/input/data/train/train_dataset.csv'' = ''train_dataset.csv''
   \<and> os_path_basename ''/opt/ml/input/data/test/test_dataset.csv'' = ''test_dataset.csv''"
  by (simp add: export_cell_def get_tokenized_data_def py_monad_defs py_index_def open_w_def
      write_line_def upt_rec example_defs environ_getitem_def os_path_join_def df_getitem_def
      os_path_basename_def MODEL_NAME_def suffix_def)

text \<open>
  C8, amended. The export cell writes the two CSV files (when every sample has a label), the
  upload cell uploads the files of these two names, and the training script reads files of
  these two names back: \<open>get_tokenized_data\<close> reads \<^verbatim>\<open>train_dataset.csv\<close> under the
  directory of \<^verbatim>\<open>SM_CHANNEL_TRAIN\<close> first and, when that read returns,
  \<^verbatim>\<open>test_dataset.csv\<close> under the directory of \<^verbatim>\<open>SM_CHANNEL_TEST\<close>.
\<close>

theorem exported_csv_is_uploaded_and_read_by_training:
  "(length (bunch_data train_dataset) \<le> length (bunch_target train_dataset) \<longrightarrow>
      fst (export_cell train_dataset test_dataset fs) = Inr ()
      \<and> dom (snd (export_cell train_dataset test_dataset fs))
          = dom fs \<union> {''train_dataset.csv'', ''test_dataset.csv''})
   \<and> (upload_data lib ''train_dataset.csv'' ''newsgroups'' = Inr train_uri
        \<and> upload_data lib ''test_dataset.csv'' ''newsgroups'' = Inr test_uri \<longrightarrow>
      run (upload_cell lib)
        = (Inr (train_uri, test_uri),
           [Upload ''train_dataset.csv'' ''newsgroups'', Upload ''test_dataset.csv'' ''newsgroups'']))
   \<and> (env ''SM_CHANNEL_TRAIN'' = Some train_dir \<and> env ''SM_CHANNEL_TEST'' = Some test_dir
        \<and> read_csv lib (os_path_join train_dir ''train_dataset.csv'') = Inr df \<longrightarrow>
      (\<exists>r calls. run (get_tokenized_data lib env)
           = (r, ReadCsv (os_path_join train_dir ''train_dataset.csv'')
                 # ReadCsv (os_path_join test_dir ''test_dataset.csv'') # calls))
      \<and> os_path_basename (os_path_join train_dir ''train_dataset.csv'') = ''train_dataset.csv''
      \<and> os_path_basename (os_path_join test_dir ''test_dataset.csv'') = ''test_dataset.csv'')"
proof -
  have export: "fst (export_cell train_dataset test_dataset fs) = Inr ()
      \<and> dom (snd (export_cell train_dataset test_dataset fs))
          = dom fs \<union> {''train_dataset.csv'', ''test_dataset.csv''}"
    if "length (bunch_data train_dataset) \<le> length (bunch_target train_dataset)"
    by (simp only: export_cell_writes_train_rows [OF that]) auto
  have base: "os_path_basename (os_path_join train_dir ''train_dataset.csv'') = ''train_dataset.csv''"
    "os_path_basename (os_path_join test_dir ''test_dataset.csv'') = ''test_dataset.csv''"
    by (simp_all add: os_path_basename_join)
  show ?thesis
    using export upload_cell_returns [of lib train_uri test_uri]
      get_tokenized_data_reads [of env train_dir test_dir lib df] base
    by blast
qed

theorem exported_csv_is_uploaded_and_read_by_training_witness:
  "length (bunch_data example_train_dataset) \<le> length (bunch_target example_train_dataset)
   \<and> dom (snd (export_cell example_train_dataset example_test_dataset Map.empty))
       = {''train_dataset.csv'', ''test_dataset.csv''}
   \<and> run (upload_cell example_library)
       = (Inr (''s3://bucket/newsgroups/train_dataset.csv'', ''s3://bucket/newsgroups/test_dataset.csv''),
          [Upload ''train_dataset.csv'' ''newsgroups'', Upload ''test_dataset.csv'' ''newsgroups''])
   \<and> example_environ ''SM_CHANNEL_TRAIN'' = Some ''/opt/ml/input/data/train''
   \<and> example_environ ''SM_CHANNEL_TEST'' = Some ''/opt/ml/input/data/test''
   \<and> (\<exists>r calls. run (get_tokenized_data example_library example_environ)
          = (r, ReadCsv ''/opt/ml/input/data/train/train_dataset.csv''
                # ReadCsv ''/opt/ml/input/data/test/test_dataset.csv'' # calls))"
proof -
  have len: "length (bunch_data example_train_dataset) \<le> length (bunch_target example_train_dataset)"
    by (simp add: example_defs)
  have up: "upload_data example_library ''train_dataset.csv'' ''newsgroups''
              = Inr ''s3://bucket/newsgroups/train_dataset.csv''"
    "upload_data example_library ''test_dataset.csv'' ''newsgroups''
              = Inr ''s3://bucket/newsgroups/test_dataset.csv''"
    by (simp_all add: example_defs)
  have env: "example_environ ''SM_CHANNEL_TRAIN'' = Some ''/opt/ml/input/data/train''"
    "example_environ ''SM_CHANNEL_TEST'' = Some ''/opt/ml/input/data/test''"
    by (simp_all add: example_defs)
  have read: "read_csv example_library (os_path_join ''/opt/ml/input/data/train'' ''train_dataset.csv'')
                = Inr [(''data'', [PyStr ''text'']), (''category_id'', [PyInt 4])]"
    by (simp add: example_defs)
  have paths: "os_path_join ''/opt/ml/input/data/train'' ''train_dataset.csv''
                 = ''/opt/ml/input/data/train/train_dataset.csv''"
    "os_path_join ''/opt/ml/input/data/test'' ''test_dataset.csv''
                 = ''/opt/ml/input/data/test/test_dataset.csv''"
    by (simp_all add: os_path_join_def suffix_def)
  from exported_csv_is_uploaded_and_read_by_training
    [of example_train_dataset example_test_dataset Map.empty example_library
      "''s3://bucket/newsgroups/train_dataset.csv''" "''s3://bucket/newsgroups/test_dataset.csv''"
      example_environ "''/opt/ml/input/data/train''" "''/opt/ml/input/data/test''"
      "[(''data'', [PyStr ''text'']), (''category_id'', [PyInt 4])]"]
    len up env read
  show ?thesis by (simp add: paths)
qed

subsection \<open>The command line\<close>





































section \<open>Branches and data structures of the scripts\<close>

text \<open>
  C7, as stated, fails: what \<open>transform_fn\<close> does depends on a branch on the
  content type, which no library call receives, and what \<open>model_fn\<close> asks of the library
  depends on a branch on the availability of CUDA.
\<close>

theorem transform_fn_and_model_fn_branch:
  "run (transform_fn example_json_loads example_json_dumps example_pipeline
          ''[]'' ''application/json'' ''application/json'')
     \<noteq> run (transform_fn example_json_loads example_json_dumps example_pipeline
          ''[]'' ''text/csv'' ''application/json'')
   \<and> run (model_fn example_library ''/opt/ml/model'')
     \<noteq> run (model_fn (example_library\<lparr>cuda_is_available := True\<rparr>) ''/opt/ml/model'')"
  by (simp add: transform_fn_def model_fn_def py_monad_defs NotImplemented_call_def
      example_defs Let_def)

lemma dict_setitem_lookup: "map_of (dict_setitem item k v) k = Some v"
  by (induction item k v rule: dict_setitem.induct) auto

text \<open>An item of the dataset carries the tensor of the label at its index; an index that
  the encodings have and the labels lack is a \<^verbatim>\<open>KeyError\<close>.\<close>

lemma CustomDataset_getitem_label:
  assumes "CustomDataset_getitem lib self idx = Inr item"
  shows "idx < length (labels self)
       \<and> (\<exists>t. torch_tensor lib (labels self ! idx) = Inr t \<and> map_of item ''label'' = Some t)"
  using assms
  by (auto simp: CustomDataset_getitem_def series_getitem_def dict_setitem_lookup
      split: sum.splits if_splits)

lemma CustomDataset_getitem_missing_label:
  assumes "getitem_encodings lib (encodings self) idx = Inr item"
    and "length (labels self) \<le> idx"
  shows "CustomDataset_getitem lib self idx = Inl (PyExn ''KeyError'' (decimal idx))"
  using assms by (simp add: CustomDataset_getitem_def series_getitem_def)

lemma transform_fn_depends_on_json_tests:
  assumes "py_in ''json'' content_type = py_in ''json'' content_type'"
    and "py_in ''json'' accept_type = py_in ''json'' accept_type'"
  shows "transform_fn json_loads json_dumps inference_pipeline data content_type accept_type
         = transform_fn json_loads json_dumps inference_pipeline data content_type' accept_type'"
  using assms by (simp add: transform_fn_def)

lemma model_fn_device:
  assumes "run (model_fn lib model_dir) = (r, calls)" and "NewPipeline kwargs \<in> set calls"
  shows "pipeline_device kwargs = (if cuda_is_available lib then 0 else - 1)"
  using assms
  by (auto simp: model_fn_def run_def py_bind_def lib_call_def Let_def split: sum.splits)

text \<open>
  C7, amended. The scripts branch in two places and define one data structure:
  \<open>transform_fn\<close> depends on the content type and the accept type only through
  whether each contains \<open>json\<close>; \<open>model_fn\<close> asks for the pipeline on device 0 when
  CUDA is available and on device -1 otherwise; and \<^verbatim>\<open>train.py\<close> defines the class
  \<open>CustomDataset\<close>, which keeps the encodings and the labels it is given and whose length
  is the number of labels.
\<close>

theorem scripts_branch_on_json_and_cuda:
  "(py_in ''json'' content_type = py_in ''json'' content_type'
      \<and> py_in ''json'' accept_type = py_in ''json'' accept_type' \<longrightarrow>
      transform_fn json_loads json_dumps inference_pipeline data content_type accept_type
        = transform_fn json_loads json_dumps inference_pipeline data content_type' accept_type')
   \<and> (run (model_fn lib model_dir) = (r, calls) \<and> NewPipeline kwargs \<in> set calls \<longrightarrow>
      pipeline_device kwargs = (if cuda_is_available lib then 0 else - 1))
   \<and> encodings (CustomDataset_init enc labs) = enc
   \<and> labels (CustomDataset_init enc labs) = labs
   \<and> CustomDataset_len (CustomDataset_init enc labs) = length labs"
  using transform_fn_depends_on_json_tests [of content_type content_type' accept_type accept_type'
      json_loads json_dumps inference_pipeline data]
    model_fn_device [of lib model_dir r calls kwargs]
  by (simp add: CustomDataset_init_def CustomDataset_len_def)

theorem scripts_branch_on_json_and_cuda_witness:
  "py_in ''json'' ''application/json'' = py_in ''json'' ''text/json''
   \<and> transform_fn example_json_loads example_json_dumps example_pipeline example_request
        ''application/json'' ''application/json''
     = transform_fn example_json_loads example_json_dumps example_pipeline example_request
        ''text/json'' ''application/json''
   \<and> run (model_fn (example_library\<lparr>cuda_is_available := True\<rparr>) ''/opt/ml/model'')
     = (Inr ''pipeline'',
        [TokenizerFromPretrained ''distilbert-base-uncased'',
         ModelFromPretrained ''/opt/ml/model'' \<lparr>num_labels = 6\<rparr>,
         NewPipeline
           \<lparr>pipeline_model = ''model:/opt/ml/model'', pipeline_task = ''text-classification'',
            pipeline_tokenizer = ''tokenizer:distilbert-base-uncased'', pipeline_framework = ''pt'',
            pipeline_device = 0, pipeline_max_length = 512, pipeline_truncation = True\<rparr>])
   \<and> pipeline_device
        \<lparr>pipeline_model = ''model:/opt/ml/model'', pipeline_task = ''text-classification'',
         pipeline_tokenizer = ''tokenizer:distilbert-base-uncased'', pipeline_framework = ''pt'',
         pipeline_device = 0, pipeline_max_length = 512, pipeline_truncation = True\<rparr>
     = (if cuda_is_available (example_library\<lparr>cuda_is_available := True\<rparr>) then 0 else - 1)
   \<and> CustomDataset_len (CustomDataset_init [(''input_ids'', [PyList [PyInt 101]])] [PyInt 4]) = 1"
proof -
  let ?kwargs = "\<lparr>pipeline_model = ''model:/opt/ml/model'', pipeline_task = ''text-classification'',
         pipeline_tokenizer = ''tokenizer:distilbert-base-uncased'', pipeline_framework = ''pt'',
         pipeline_device = 0, pipeline_max_length = 512, pipeline_truncation = True\<rparr>"
  let ?calls = "[TokenizerFromPretrained ''distilbert-base-uncased'',
         ModelFromPretrained ''/opt/ml/model'' \<lparr>num_labels = 6\<rparr>,
         NewPipeline ?kwargs]"
  have same: "py_in ''json'' ''application/json'' = py_in ''json'' ''text/json''" by simp
  have gpu: "run (model_fn (example_library\<lparr>cuda_is_available := True\<rparr>) ''/opt/ml/model'')
               = (Inr ''pipeline'', ?calls)"
    by (simp add: model_fn_def py_monad_defs example_defs MODEL_NAME_def NUM_LABELS_def
        MAX_LENGTH_def DistilBertConfig_def Let_def)
  have mem: "NewPipeline ?kwargs \<in> set ?calls" by simp
  from scripts_branch_on_json_and_cuda
    [of "''application/json''" "''text/json''" "''application/json''" "''application/json''"
      example_json_loads example_json_dumps example_pipeline example_request
      "example_library\<lparr>cuda_is_available := True\<rparr>" "''/opt/ml/model''" "Inr ''pipeline''"
      ?calls ?kwargs "[(''input_ids'', [PyList [PyInt 101]])]" "[PyInt 4]"]
    same gpu mem
  show ?thesis by simp
qed


end
